theory Spec2Isabelle
  imports Complex_Main "HOL-Library.Sublist" "HOL-Library.Log_Nat"
begin

section \<open>Values of the host language\<close>

text \<open>
  The engine of \<^verbatim>\<open>src/core/promptFusionEngine.js\<close> works on three kinds of values:
  numbers (the weights), strings (the layer texts and the fused prompt) and plain objects
  with the keys \<^verbatim>\<open>base\<close>, \<^verbatim>\<open>brain\<close>, \<^verbatim>\<open>persona\<close>.

  \<^item> A number is an exact \<^typ>\<open>real\<close>: comparison, addition and absolute value are the
    mathematical ones. The rounding of doubles matters to the validation of the sum only;
    the section on double arithmetic below adds it.
  \<^item> A string is a \<^typ>\<open>string\<close>; a character stands for the code unit of the same
    number (0 to 255).
  \<^item> The conversion of a number to a string, which every template literal
    \<^verbatim>\<open>${weight}\<close> performs, is a parameter \<open>str\<close> of each function that formats a
    number: the theorems hold for every such conversion.
\<close>

type_synonym number = real

record 'a layered =
  base :: 'a
  brain :: 'a
  persona :: 'a

text \<open>
  A weight distribution as the caller writes it: a key that the object literal leaves out
  reads as \<^verbatim>\<open>undefined\<close>, here \<^const>\<open>None\<close>.
\<close>

type_synonym weights = "number option layered"

text \<open>The object-destructuring default \<^verbatim>\<open>{ key: name = d }\<close>.\<close>

definition or_default :: "'a option \<Rightarrow> 'a \<Rightarrow> 'a" where
  "or_default v d = (case v of None \<Rightarrow> d | Some x \<Rightarrow> x)"

text \<open>
  White space and line terminators among the first 256 code units, the characters that
  \<^verbatim>\<open>String.prototype.trim\<close> removes: TAB, LF, VT, FF, CR, SP and NBSP.
\<close>

definition WhiteSpace :: "char \<Rightarrow> bool" where
  "WhiteSpace c = (c \<in> set [CHR 0x09, CHR ''\<newline>'', CHR 0x0B, CHR 0x0C, CHR 0x0D, CHR '' '', CHR 0xA0])"

definition trim :: "string \<Rightarrow> string" where
  "trim s = rev (dropWhile WhiteSpace (rev (dropWhile WhiteSpace s)))"

text \<open>
  The two \<^verbatim>\<open>throw new Error(...)\<close> sites of the engine, tagged by the condition they
  report and carrying the message, and the \<^verbatim>\<open>TypeError\<close> that the language raises
  when \<^verbatim>\<open>undefined\<close> is destructured or a non-function is called.
\<close>

datatype error =
    InvalidWeightDistribution string
  | UnknownStrategy string
  | TypeError

section \<open>The fusion engine\<close>

subsection \<open>weightedFusion\<close>

definition weightedFusion ::
  "(number \<Rightarrow> string) \<Rightarrow> string \<Rightarrow> string \<Rightarrow> string \<Rightarrow> weights option \<Rightarrow> error + string" where
  "weightedFusion str basePrompt brainPrompt personaPrompt weights =
     (case weights of
        None \<Rightarrow> Inl TypeError
      | Some w \<Rightarrow>
          let baseWeight = or_default (base w) 0.5;
              brainWeight = or_default (brain w) 0.3;
              personaWeight = or_default (persona w) 0.2;
              weightSum = baseWeight + brainWeight + personaWeight
          in if \<bar>weightSum - 1.0\<bar> > 0.001
             then Inl (InvalidWeightDistribution
                    (''Weights must sum to 1.0, got '' @ str weightSum @ ''. Please adjust weights.''))
             else
               let fusedPrompt = '''';
                   fusedPrompt =
                     (if basePrompt \<noteq> '''' \<and> baseWeight > 0
                      then fusedPrompt @ ''[BASE_WEIGHT:'' @ str baseWeight @ '']\<newline>''
                             @ basePrompt @ ''\<newline>\<newline>''
                      else fusedPrompt);
                   fusedPrompt =
                     (if brainPrompt \<noteq> '''' \<and> brainWeight > 0
                      then fusedPrompt @ ''[BRAIN_WEIGHT:'' @ str brainWeight @ '']\<newline>''
                             @ brainPrompt @ ''\<newline>\<newline>''
                      else fusedPrompt);
                   fusedPrompt =
                     (if personaPrompt \<noteq> '''' \<and> personaWeight > 0
                      then fusedPrompt @ ''[PERSONA_WEIGHT:'' @ str personaWeight @ '']\<newline>''
                             @ personaPrompt @ ''\<newline>\<newline>''
                      else fusedPrompt)
               in Inr (trim fusedPrompt))"

subsection \<open>getSemanticEmphasis\<close>

definition getSemanticEmphasis :: "number \<Rightarrow> string" where
  "getSemanticEmphasis weight =
     (if weight \<ge> 0.6 then ''CRITICAL PRIORITY - MUST FOLLOW''
      else if weight \<ge> 0.4 then ''HIGH IMPORTANCE''
      else if weight \<ge> 0.2 then ''MODERATE GUIDANCE''
      else ''OPTIONAL CONSIDERATION'')"

subsection \<open>generateConflictResolutionRules\<close>

record weighted_layer =
  name :: string
  weight :: number

text \<open>
  \<^verbatim>\<open>Array.prototype.sort\<close> with a comparator is a stable sort: \<open>a\<close> moves
  behind \<open>b\<close> only when \<open>cmp a b > 0\<close>. With a consistent comparator every stable sort
  gives the same array; it is computed here by insertion from the right.
\<close>

fun insert_stable :: "('a \<Rightarrow> 'a \<Rightarrow> number) \<Rightarrow> 'a \<Rightarrow> 'a list \<Rightarrow> 'a list" where
  "insert_stable cmp a [] = [a]"
| "insert_stable cmp a (b # bs) =
     (if cmp a b > 0 then b # insert_stable cmp a bs else a # b # bs)"

definition Array_sort :: "('a \<Rightarrow> 'a \<Rightarrow> number) \<Rightarrow> 'a list \<Rightarrow> 'a list" where
  "Array_sort cmp xs = foldr (insert_stable cmp) xs []"

text \<open>The constant \<^verbatim>\<open>layers\<close> of \<^verbatim>\<open>generateConflictResolutionRules\<close>.\<close>

definition sorted_layers :: "weights \<Rightarrow> weighted_layer list" where
  "sorted_layers w =
     (let baseWeight = or_default (base w) 0.5;
          brainWeight = or_default (brain w) 0.3;
          personaWeight = or_default (persona w) 0.2
      in Array_sort (\<lambda>a b. weight b - weight a)
           (filter (\<lambda>l. weight l > 0)
              [\<lparr>name = ''PERSONA'', weight = personaWeight\<rparr>,
               \<lparr>name = ''BRAIN'', weight = brainWeight\<rparr>,
               \<lparr>name = ''BASE'', weight = baseWeight\<rparr>]))"

text \<open>The \<^verbatim>\<open>forEach((layer, index) => ...)\<close> loop, from \<open>index\<close> on.\<close>

fun forEach_layer :: "(number \<Rightarrow> string) \<Rightarrow> weighted_layer list \<Rightarrow> nat \<Rightarrow> string \<Rightarrow> string" where
  "forEach_layer str [] index rules = rules"
| "forEach_layer str (layer # rest) index rules =
     forEach_layer str rest (index + 1)
       (rules @ str (of_nat index + 1) @ ''. '' @ name layer
          @ '' instructions (weight: '' @ str (weight layer) @ '')\<newline>'')"

definition generateConflictResolutionRules ::
  "(number \<Rightarrow> string) \<Rightarrow> weights option \<Rightarrow> error + string" where
  "generateConflictResolutionRules str weights =
     (case weights of
        None \<Rightarrow> Inl TypeError
      | Some w \<Rightarrow>
          let layers = sorted_layers w;
              rules = ''\<newline>[CONFLICT RESOLUTION RULES]\<newline>'';
              rules = rules @ ''When instructions conflict, apply this priority order:\<newline>'';
              rules = forEach_layer str layers 0 rules;
              rules = rules @ ''\<newline>Always prioritize higher-weighted layers when resolving conflicts.\<newline>''
          in Inr rules)"

subsection \<open>semanticWeightedFusion\<close>

definition semanticWeightedFusion ::
  "(number \<Rightarrow> string) \<Rightarrow> string \<Rightarrow> string \<Rightarrow> string \<Rightarrow> weights option \<Rightarrow> error + string" where
  "semanticWeightedFusion str basePrompt brainPrompt personaPrompt weights =
     (case weights of
        None \<Rightarrow> Inl TypeError
      | Some w \<Rightarrow>
          let baseWeight = or_default (base w) 0.5;
              brainWeight = or_default (brain w) 0.3;
              personaWeight = or_default (persona w) 0.2;
              weightSum = baseWeight + brainWeight + personaWeight
          in if \<bar>weightSum - 1.0\<bar> > 0.001
             then Inl (InvalidWeightDistribution
                    (''Weights must sum to 1.0, got '' @ str weightSum))
             else
               let fusedPrompt = '''';
                   fusedPrompt =
                     (if basePrompt \<noteq> '''' \<and> baseWeight > 0
                      then fusedPrompt @ ''[BASE LAYER - '' @ getSemanticEmphasis baseWeight
                             @ '']\<newline>'' @ basePrompt @ ''\<newline>\<newline>''
                      else fusedPrompt);
                   fusedPrompt =
                     (if brainPrompt \<noteq> '''' \<and> brainWeight > 0
                      then fusedPrompt @ ''[BRAIN CONFIGURATION - '' @ getSemanticEmphasis brainWeight
                             @ '']\<newline>'' @ brainPrompt @ ''\<newline>\<newline>''
                      else fusedPrompt);
                   fusedPrompt =
                     (if personaPrompt \<noteq> '''' \<and> personaWeight > 0
                      then fusedPrompt @ ''[PERSONA INSTRUCTIONS - '' @ getSemanticEmphasis personaWeight
                             @ '']\<newline>'' @ personaPrompt @ ''\<newline>\<newline>''
                      else fusedPrompt)
               in (case generateConflictResolutionRules str weights of
                     Inl e \<Rightarrow> Inl e
                   | Inr rules \<Rightarrow> Inr (trim (fusedPrompt @ rules))))"

subsection \<open>detectConflicts\<close>

text \<open>
  The patterns are alternations of words under the flag \<^verbatim>\<open>i\<close>, without the flags
  \<^verbatim>\<open>g\<close> and \<^verbatim>\<open>y\<close>: \<^verbatim>\<open>test\<close> keeps no position between calls and answers
  whether some alternative occurs at some index of the input. Two code units match when
  their canonical forms agree; the canonical form of \<^verbatim>\<open>a\<close> to \<^verbatim>\<open>z\<close> is the
  capital letter, and no other code unit has a capital ASCII letter as its canonical
  form, so every code unit outside \<^verbatim>\<open>a\<close> to \<^verbatim>\<open>z\<close> is compared with the letters of
  the patterns as it is.
\<close>

definition Canonicalize :: "char \<Rightarrow> char" where
  "Canonicalize c =
     (case map_of (zip ''abcdefghijklmnopqrstuvwxyz'' ''ABCDEFGHIJKLMNOPQRSTUVWXYZ'') c of
        None \<Rightarrow> c
      | Some capital \<Rightarrow> capital)"

fun matches_at :: "string \<Rightarrow> string \<Rightarrow> bool" where
  "matches_at [] s = True"
| "matches_at (p # ps) [] = False"
| "matches_at (p # ps) (c # cs) = (Canonicalize p = Canonicalize c \<and> matches_at ps cs)"

fun RegExp_test :: "string list \<Rightarrow> string \<Rightarrow> bool" where
  "RegExp_test alternatives [] = list_ex (\<lambda>a. matches_at a []) alternatives"
| "RegExp_test alternatives (c # cs) =
     (list_ex (\<lambda>a. matches_at a (c # cs)) alternatives \<or> RegExp_test alternatives cs)"

record conflict =
  type :: string
  layer1 :: string
  layer2 :: string
  description :: string

definition opposingPatterns :: "(string list \<times> string list \<times> string) list" where
  "opposingPatterns =
     [([''verbose'', ''detailed'', ''comprehensive''], [''concise'', ''brief'', ''short''], ''verbosity''),
      ([''formal'', ''professional''], [''casual'', ''informal''], ''tone''),
      ([''fast'', ''quick'', ''immediate''], [''careful'', ''thorough'', ''deliberate''], ''speed''),
      ([''creative'', ''innovative''], [''conservative'', ''traditional''], ''approach'')]"

text \<open>The property read \<^verbatim>\<open>prompts[key]\<close>; a key that is absent reads as a falsy value.\<close>

definition get_prompt :: "(string \<times> string) list \<Rightarrow> string \<Rightarrow> string" where
  "get_prompt prompts key = (case map_of prompts key of None \<Rightarrow> '''' | Some v \<Rightarrow> v)"

text \<open>The body of the two nested loops, for the layers at the indices \<open>i\<close> and \<open>j\<close>.\<close>

definition check_pair ::
  "(string \<times> string) list \<Rightarrow> string list \<Rightarrow> nat \<Rightarrow> nat \<Rightarrow> conflict list \<Rightarrow> conflict list" where
  "check_pair prompts layers i j conflicts =
     (let prompt1 = get_prompt prompts (layers ! i);
          prompt2 = get_prompt prompts (layers ! j)
      in if prompt1 = '''' \<or> prompt2 = '''' then conflicts
         else fold (\<lambda>(pattern1, pattern2, type) conflicts.
                let has1in1 = RegExp_test pattern1 prompt1;
                    has2in1 = RegExp_test pattern2 prompt1;
                    has1in2 = RegExp_test pattern1 prompt2;
                    has2in2 = RegExp_test pattern2 prompt2
                in if (has1in1 \<and> has2in2) \<or> (has2in1 \<and> has1in2)
                   then conflicts @
                     [\<lparr>type = type, layer1 = layers ! i, layer2 = layers ! j,
                       description = ''Conflicting '' @ type @ '' instructions between ''
                         @ layers ! i @ '' and '' @ layers ! j\<rparr>]
                   else conflicts)
              opposingPatterns conflicts)"

definition detectConflicts :: "string \<Rightarrow> string \<Rightarrow> string \<Rightarrow> conflict list" where
  "detectConflicts basePrompt brainPrompt personaPrompt =
     (let conflicts = [];
          prompts = [(''base'', basePrompt), (''brain'', brainPrompt), (''persona'', personaPrompt)];
          layers = map fst prompts
      in fold (\<lambda>i conflicts.
                 fold (\<lambda>j conflicts. check_pair prompts layers i j conflicts)
                   [i + 1 ..< length layers] conflicts)
           [0 ..< length layers] conflicts)"

subsection \<open>fusePrompts\<close>

text \<open>
  \<^verbatim>\<open>this.fusionStrategies\<close> is an object literal: it has the two bound methods as its
  own properties and inherits the properties of \<^verbatim>\<open>Object.prototype\<close>. A property
  read finds the functions of \<^verbatim>\<open>Object.prototype\<close> and, under the key
  \<^verbatim>\<open>__proto__\<close>, the prototype object itself.
\<close>

datatype property_value =
    BoundWeightedFusion
  | BoundSemanticWeightedFusion
  | ObjectPrototypeFunction string
  | ObjectPrototypeObject
  | Undefined

definition Object_prototype_functions :: "string list" where
  "Object_prototype_functions =
     [''constructor'', ''__defineGetter__'', ''__defineSetter__'', ''hasOwnProperty'',
      ''__lookupGetter__'', ''__lookupSetter__'', ''isPrototypeOf'', ''propertyIsEnumerable'',
      ''toString'', ''valueOf'', ''toLocaleString'']"

definition fusionStrategies :: "string \<Rightarrow> property_value" where
  "fusionStrategies key =
     (if key = ''weighted'' then BoundWeightedFusion
      else if key = ''semanticWeighted'' then BoundSemanticWeightedFusion
      else if key \<in> set Object_prototype_functions then ObjectPrototypeFunction key
      else if key = ''__proto__'' then ObjectPrototypeObject
      else Undefined)"

text \<open>What a call through \<^verbatim>\<open>fusionStrategy(base, brain, persona, weights)\<close> can return.\<close>

datatype result_value = String string | Boolean bool | StringObject string

text \<open>
  A function of \<^verbatim>\<open>Object.prototype\<close> called as \<^verbatim>\<open>f(base, ...)\<close>, where
  \<^verbatim>\<open>this\<close> is \<^verbatim>\<open>undefined\<close> and the first argument is a string:
  \<^verbatim>\<open>toString\<close> answers for \<^verbatim>\<open>undefined\<close>, \<^verbatim>\<open>Object\<close> wraps its argument,
  \<^verbatim>\<open>isPrototypeOf\<close> answers \<^verbatim>\<open>false\<close> for an argument that is not an object, and
  the others fail when they convert \<^verbatim>\<open>this\<close> to an object.
\<close>

definition call_Object_prototype_function :: "string \<Rightarrow> string \<Rightarrow> error + result_value" where
  "call_Object_prototype_function key arg =
     (if key = ''toString'' then Inr (String ''[object Undefined]'')
      else if key = ''constructor'' then Inr (StringObject arg)
      else if key = ''isPrototypeOf'' then Inr (Boolean False)
      else Inl TypeError)"

definition fusePrompts ::
  "(number \<Rightarrow> string) \<Rightarrow> string layered \<Rightarrow> string option \<Rightarrow> weights option \<Rightarrow> error + result_value" where
  "fusePrompts str layers strategy weights =
     (let strategy = or_default strategy ''semanticWeighted'';
          weights = or_default weights \<lparr>base = None, brain = None, persona = None\<rparr>;
          fusionStrategy = fusionStrategies strategy
      in case fusionStrategy of
           Undefined \<Rightarrow> Inl (UnknownStrategy (''Unknown fusion strategy: '' @ strategy))
         | BoundWeightedFusion \<Rightarrow>
             map_sum id String
               (weightedFusion str (base layers) (brain layers) (persona layers) (Some weights))
         | BoundSemanticWeightedFusion \<Rightarrow>
             map_sum id String
               (semanticWeightedFusion str (base layers) (brain layers) (persona layers) (Some weights))
         | ObjectPrototypeFunction key \<Rightarrow> call_Object_prototype_function key (base layers)
         | ObjectPrototypeObject \<Rightarrow> Inl TypeError)"

section \<open>The weight resolver\<close>

text \<open>
  \<^verbatim>\<open>determineWeights(personaId, personaContent)\<close>; both arguments are a string or
  \<^verbatim>\<open>null\<close>, here \<^const>\<open>None\<close>.
\<close>

definition determineWeights :: "string option \<Rightarrow> string option \<Rightarrow> weights" where
  "determineWeights personaId personaContent =
     (let hasActivePersona =
            (case personaId of
               None \<Rightarrow> False
             | Some pid \<Rightarrow>
                 pid \<noteq> '''' \<and> pid \<noteq> ''default'' \<and>
                 (case personaContent of
                    None \<Rightarrow> False
                  | Some content \<Rightarrow> content \<noteq> '''' \<and> length (trim content) > 0))
      in if hasActivePersona
         then \<lparr>base = Some 0.2, brain = Some 0.3, persona = Some 0.5\<rparr>
         else \<lparr>base = Some 0.4, brain = Some 0.6, persona = Some 0.0\<rparr>)"

section \<open>Notions used to state the properties\<close>

subsection \<open>Layers, effective weights and the tolerance\<close>

datatype layer = Base | Brain | Persona

text \<open>The weight of a layer after the destructuring defaults.\<close>

definition weight_of :: "weights \<Rightarrow> layer \<Rightarrow> number" where
  "weight_of w l =
     (case l of
        Base \<Rightarrow> or_default (base w) 0.5
      | Brain \<Rightarrow> or_default (brain w) 0.3
      | Persona \<Rightarrow> or_default (persona w) 0.2)"

definition weight_sum :: "weights \<Rightarrow> number" where
  "weight_sum w = weight_of w Base + weight_of w Brain + weight_of w Persona"

definition within_tolerance :: "weights \<Rightarrow> bool" where
  "within_tolerance w = (\<bar>weight_sum w - 1\<bar> \<le> 0.001)"

text \<open>The distribution in which every key that is left out is written with its default.\<close>

definition with_defaults :: "weights \<Rightarrow> weights" where
  "with_defaults w =
     \<lparr>base = Some (or_default (base w) 0.5),
      brain = Some (or_default (brain w) 0.3),
      persona = Some (or_default (persona w) 0.2)\<rparr>"

subsection \<open>Layer blocks\<close>

definition text_of :: "string layered \<Rightarrow> layer \<Rightarrow> string" where
  "text_of t l = (case l of Base \<Rightarrow> base t | Brain \<Rightarrow> brain t | Persona \<Rightarrow> persona t)"

text \<open>The layers that get a block: non-empty text and positive weight, in the fixed order.\<close>

definition emitted_layers :: "weights \<Rightarrow> string layered \<Rightarrow> layer list" where
  "emitted_layers w t = filter (\<lambda>l. text_of t l \<noteq> '''' \<and> weight_of w l > 0) [Base, Brain, Persona]"

definition numeric_marker :: "(number \<Rightarrow> string) \<Rightarrow> weights \<Rightarrow> layer \<Rightarrow> string" where
  "numeric_marker str w l =
     (case l of Base \<Rightarrow> ''[BASE_WEIGHT:'' | Brain \<Rightarrow> ''[BRAIN_WEIGHT:'' | Persona \<Rightarrow> ''[PERSONA_WEIGHT:'')
       @ str (weight_of w l) @ '']''"

definition semantic_marker :: "weights \<Rightarrow> layer \<Rightarrow> string" where
  "semantic_marker w l =
     (case l of Base \<Rightarrow> ''[BASE LAYER - '' | Brain \<Rightarrow> ''[BRAIN CONFIGURATION - ''
        | Persona \<Rightarrow> ''[PERSONA INSTRUCTIONS - '')
       @ getSemanticEmphasis (weight_of w l) @ '']''"

text \<open>A block: the marker line, the text of the layer, a blank line.\<close>

definition block :: "string \<Rightarrow> string \<Rightarrow> string" where
  "block marker text = marker @ ''\<newline>'' @ text @ ''\<newline>\<newline>''"

definition numeric_blocks :: "(number \<Rightarrow> string) \<Rightarrow> weights \<Rightarrow> string layered \<Rightarrow> string list" where
  "numeric_blocks str w t = map (\<lambda>l. block (numeric_marker str w l) (text_of t l)) (emitted_layers w t)"

definition semantic_blocks :: "weights \<Rightarrow> string layered \<Rightarrow> string list" where
  "semantic_blocks w t = map (\<lambda>l. block (semantic_marker w l) (text_of t l)) (emitted_layers w t)"


subsection \<open>The conflict-resolution directive\<close>







text \<open>The line of the numbered list for the \<open>n\<close>-th entry.\<close>

definition rule_line :: "(number \<Rightarrow> string) \<Rightarrow> nat \<Rightarrow> weighted_layer \<Rightarrow> string" where
  "rule_line str n l =
     str (of_nat n) @ ''. '' @ name l @ '' instructions (weight: '' @ str (weight l) @ '')\<newline>''"

definition numbered_list :: "(number \<Rightarrow> string) \<Rightarrow> weighted_layer list \<Rightarrow> string" where
  "numbered_list str ls = concat (map (\<lambda>(i, l). rule_line str (i + 1) l) (enumerate 0 ls))"

text \<open>The directive as it stands in the fused prompt: heading, numbered list, closing instruction.\<close>

definition directive :: "(number \<Rightarrow> string) \<Rightarrow> weighted_layer list \<Rightarrow> string" where
  "directive str ls =
     ''[CONFLICT RESOLUTION RULES]\<newline>''
     @ ''When instructions conflict, apply this priority order:\<newline>''
     @ numbered_list str ls
     @ ''\<newline>Always prioritize higher-weighted layers when resolving conflicts.''"

text \<open>What precedes the directive: nothing, or the blocks and one more line break.\<close>

definition before_directive :: "string list \<Rightarrow> string" where
  "before_directive blocks = (if blocks = [] then '''' else concat blocks @ ''\<newline>'')"

subsection \<open>Conflict records\<close>

text \<open>
  Two texts oppose each other under a pattern pair when one matches the first pattern and
  the other the second, in either assignment.
\<close>

definition opposes :: "string list \<times> string list \<times> string \<Rightarrow> string \<Rightarrow> string \<Rightarrow> bool" where
  "opposes pat t1 t2 =
     (case pat of (pattern1, pattern2, ty) \<Rightarrow>
        (RegExp_test pattern1 t1 \<and> RegExp_test pattern2 t2) \<or>
        (RegExp_test pattern2 t1 \<and> RegExp_test pattern1 t2))"

definition conflict_record :: "string \<Rightarrow> string \<Rightarrow> string \<Rightarrow> conflict" where
  "conflict_record ty l1 l2 =
     \<lparr>type = ty, layer1 = l1, layer2 = l2,
      description = ''Conflicting '' @ ty @ '' instructions between '' @ l1 @ '' and '' @ l2\<rparr>"

text \<open>The records of one pair of layers, in the order of the pattern pairs.\<close>

definition pair_conflicts :: "string \<Rightarrow> string \<Rightarrow> string \<Rightarrow> string \<Rightarrow> conflict list" where
  "pair_conflicts l1 l2 t1 t2 =
     (if t1 = '''' \<or> t2 = '''' then []
      else map (\<lambda>pat. conflict_record (snd (snd pat)) l1 l2)
             (filter (\<lambda>pat. opposes pat t1 t2) opposingPatterns))"

definition conflict_key :: "conflict \<Rightarrow> string \<times> string \<times> string" where
  "conflict_key c = (type c, layer1 c, layer2 c)"

subsection \<open>The persona overlay\<close>

text \<open>
  The overlay is inactive when there is no persona id, or the id is empty or
  \<^verbatim>\<open>default\<close>; its content is blank when it is absent, empty or white space only.
\<close>

definition inactive :: "string option \<Rightarrow> bool" where
  "inactive personaId = (personaId = None \<or> personaId = Some '''' \<or> personaId = Some ''default'')"

definition blank :: "string option \<Rightarrow> bool" where
  "blank personaContent = (case personaContent of None \<Rightarrow> True | Some s \<Rightarrow> list_all WhiteSpace s)"

subsection \<open>A number conversion for the examples\<close>

text \<open>
  The strings that the language gives for the numbers of the examples below; the
  examples use no other number.
\<close>

definition example_str :: "number \<Rightarrow> string" where
  "example_str x =
     (if x = 0 then ''0'' else if x = 1 then ''1'' else if x = 2 then ''2''
      else if x = 3 then ''3'' else if x = 0.2 then ''0.2'' else if x = 0.3 then ''0.3''
      else if x = 0.4 then ''0.4'' else if x = 0.5 then ''0.5'' else if x = 0.6 then ''0.6''
      else if x = 1.5 then ''1.5'' else ''?'')"

section \<open>The engine in double arithmetic\<close>

text \<open>
  The numbers of the language are IEEE 754 doubles: a literal denotes the double nearest
  to it, and a sum or a difference is the double nearest to the exact result, a tie going
  to the double with the even significand. Comparisons and \<^verbatim>\<open>Math.abs\<close> are exact.
  Whether the three weights pass the validation of lines 33 to 36 and of lines 72 to 75
  depends on this rounding, so the engine is written a second time with a rounding
  \<open>rnd\<close> at every literal, sum and difference: with the identity for \<open>rnd\<close> it is
  the engine on exact reals of the sections above, with \<^verbatim>\<open>round_to_double\<close> below it
  is the engine of the language.
\<close>

subsection \<open>Rounding to the nearest double\<close>

text \<open>
  The exponent \<open>e\<close> with \<open>2 ^ e \<le> x < 2 ^ (e + 1)\<close>, for positive \<open>x\<close>, computed
  from the number of binary digits of an integer.
\<close>

definition binade :: "real \<Rightarrow> int" where
  "binade x = (if x \<ge> 1 then bitlen \<lfloor>x\<rfloor> - 1 else - bitlen (\<lceil>1 / x\<rceil> - 1))"

text \<open>The nearest integer, a tie going to the even one.\<close>

definition round_half_even :: "real \<Rightarrow> int" where
  "round_half_even y =
     (let f = \<lfloor>y\<rfloor>
      in if y - of_int f < 1 / 2 then f
         else if y - of_int f > 1 / 2 then f + 1
         else if even f then f else f + 1)"

text \<open>
  A double has a significand of 53 binary digits, so the doubles of the binade \<open>e\<close>
  are the multiples of \<open>2 ^ (e - 52)\<close>; below \<open>2 ^ (- 1022)\<close> they are the
  multiples of \<open>2 ^ (- 1074)\<close>. A result beyond the largest double, which the language
  gives as \<^verbatim>\<open>Infinity\<close>, has no counterpart among the reals: the exponent is not
  bounded from above here.
\<close>

definition round_to_double :: "real \<Rightarrow> real" where
  "round_to_double x =
     (if x = 0 then 0
      else let q = max (binade \<bar>x\<bar> - 52) (- 1074);
               ulp = 2 powi q
           in of_int (round_half_even (x / ulp)) * ulp)"

subsection \<open>The engine with a rounding\<close>

definition getSemanticEmphasis_rounded :: "(real \<Rightarrow> number) \<Rightarrow> number \<Rightarrow> string" where
  "getSemanticEmphasis_rounded rnd weight' =
     (if weight' \<ge> rnd 0.6 then ''CRITICAL PRIORITY - MUST FOLLOW''
      else if weight' \<ge> rnd 0.4 then ''HIGH IMPORTANCE''
      else if weight' \<ge> rnd 0.2 then ''MODERATE GUIDANCE''
      else ''OPTIONAL CONSIDERATION'')"

definition sorted_layers_rounded :: "(real \<Rightarrow> number) \<Rightarrow> weights \<Rightarrow> weighted_layer list" where
  "sorted_layers_rounded rnd w =
     (let baseWeight = or_default (base w) (rnd 0.5);
          brainWeight = or_default (brain w) (rnd 0.3);
          personaWeight = or_default (persona w) (rnd 0.2)
      in Array_sort (\<lambda>a b. rnd (weight b - weight a))
           (filter (\<lambda>l. weight l > 0)
              [\<lparr>name = ''PERSONA'', weight = personaWeight\<rparr>,
               \<lparr>name = ''BRAIN'', weight = brainWeight\<rparr>,
               \<lparr>name = ''BASE'', weight = baseWeight\<rparr>]))"

text \<open>The index of the loop is at most 3, and \<^verbatim>\<open>index + 1\<close> is exact.\<close>

definition generateConflictResolutionRules_rounded ::
  "(real \<Rightarrow> number) \<Rightarrow> (number \<Rightarrow> string) \<Rightarrow> weights option \<Rightarrow> error + string" where
  "generateConflictResolutionRules_rounded rnd str weights =
     (case weights of
        None \<Rightarrow> Inl TypeError
      | Some w \<Rightarrow>
          let layers = sorted_layers_rounded rnd w;
              rules = ''\<newline>[CONFLICT RESOLUTION RULES]\<newline>'';
              rules = rules @ ''When instructions conflict, apply this priority order:\<newline>'';
              rules = forEach_layer str layers 0 rules;
              rules = rules @ ''\<newline>Always prioritize higher-weighted layers when resolving conflicts.\<newline>''
          in Inr rules)"

definition weightedFusion_rounded ::
  "(real \<Rightarrow> number) \<Rightarrow> (number \<Rightarrow> string) \<Rightarrow> string \<Rightarrow> string \<Rightarrow> string \<Rightarrow> weights option
     \<Rightarrow> error + string" where
  "weightedFusion_rounded rnd str basePrompt brainPrompt personaPrompt weights =
     (case weights of
        None \<Rightarrow> Inl TypeError
      | Some w \<Rightarrow>
          let baseWeight = or_default (base w) (rnd 0.5);
              brainWeight = or_default (brain w) (rnd 0.3);
              personaWeight = or_default (persona w) (rnd 0.2);
              weightSum = rnd (rnd (baseWeight + brainWeight) + personaWeight)
          in if \<bar>rnd (weightSum - rnd 1.0)\<bar> > rnd 0.001
             then Inl (InvalidWeightDistribution
                    (''Weights must sum to 1.0, got '' @ str weightSum @ ''. Please adjust weights.''))
             else
               let fusedPrompt = '''';
                   fusedPrompt =
                     (if basePrompt \<noteq> '''' \<and> baseWeight > 0
                      then fusedPrompt @ ''[BASE_WEIGHT:'' @ str baseWeight @ '']\<newline>''
                             @ basePrompt @ ''\<newline>\<newline>''
                      else fusedPrompt);
                   fusedPrompt =
                     (if brainPrompt \<noteq> '''' \<and> brainWeight > 0
                      then fusedPrompt @ ''[BRAIN_WEIGHT:'' @ str brainWeight @ '']\<newline>''
                             @ brainPrompt @ ''\<newline>\<newline>''
                      else fusedPrompt);
                   fusedPrompt =
                     (if personaPrompt \<noteq> '''' \<and> personaWeight > 0
                      then fusedPrompt @ ''[PERSONA_WEIGHT:'' @ str personaWeight @ '']\<newline>''
                             @ personaPrompt @ ''\<newline>\<newline>''
                      else fusedPrompt)
               in Inr (trim fusedPrompt))"

definition semanticWeightedFusion_rounded ::
  "(real \<Rightarrow> number) \<Rightarrow> (number \<Rightarrow> string) \<Rightarrow> string \<Rightarrow> string \<Rightarrow> string \<Rightarrow> weights option
     \<Rightarrow> error + string" where
  "semanticWeightedFusion_rounded rnd str basePrompt brainPrompt personaPrompt weights =
     (case weights of
        None \<Rightarrow> Inl TypeError
      | Some w \<Rightarrow>
          let baseWeight = or_default (base w) (rnd 0.5);
              brainWeight = or_default (brain w) (rnd 0.3);
              personaWeight = or_default (persona w) (rnd 0.2);
              weightSum = rnd (rnd (baseWeight + brainWeight) + personaWeight)
          in if \<bar>rnd (weightSum - rnd 1.0)\<bar> > rnd 0.001
             then Inl (InvalidWeightDistribution
                    (''Weights must sum to 1.0, got '' @ str weightSum))
             else
               let fusedPrompt = '''';
                   fusedPrompt =
                     (if basePrompt \<noteq> '''' \<and> baseWeight > 0
                      then fusedPrompt @ ''[BASE LAYER - '' @ getSemanticEmphasis_rounded rnd baseWeight
                             @ '']\<newline>'' @ basePrompt @ ''\<newline>\<newline>''
                      else fusedPrompt);
                   fusedPrompt =
                     (if brainPrompt \<noteq> '''' \<and> brainWeight > 0
                      then fusedPrompt @ ''[BRAIN CONFIGURATION - ''
                             @ getSemanticEmphasis_rounded rnd brainWeight
                             @ '']\<newline>'' @ brainPrompt @ ''\<newline>\<newline>''
                      else fusedPrompt);
                   fusedPrompt =
                     (if personaPrompt \<noteq> '''' \<and> personaWeight > 0
                      then fusedPrompt @ ''[PERSONA INSTRUCTIONS - ''
                             @ getSemanticEmphasis_rounded rnd personaWeight
                             @ '']\<newline>'' @ personaPrompt @ ''\<newline>\<newline>''
                      else fusedPrompt)
               in (case generateConflictResolutionRules_rounded rnd str weights of
                     Inl e \<Rightarrow> Inl e
                   | Inr rules \<Rightarrow> Inr (trim (fusedPrompt @ rules))))"

subsection \<open>The sum that the code computes\<close>

text \<open>The value of \<^verbatim>\<open>weightSum\<close>: the defaults, then two rounded additions from the left.\<close>

definition computed_sum :: "(real \<Rightarrow> number) \<Rightarrow> weights \<Rightarrow> number" where
  "computed_sum rnd w =
     rnd (rnd (or_default (base w) (rnd 0.5) + or_default (brain w) (rnd 0.3))
          + or_default (persona w) (rnd 0.2))"

text \<open>The test of the code on that sum, negated: the distribution passes.\<close>

definition passes_validation :: "(real \<Rightarrow> number) \<Rightarrow> weights \<Rightarrow> bool" where
  "passes_validation rnd w = (\<bar>rnd (computed_sum rnd w - rnd 1.0)\<bar> \<le> rnd 0.001)"

text \<open>The strings that the language gives for the two sums of the examples of C3.\<close>

definition example_str_double :: "number \<Rightarrow> string" where
  "example_str_double x =
     (if x = 8998192055486251 / 2 ^ 53 then ''0.999'' else if x = 3 / 2 then ''1.5'' else ''?'')"

section \<open>Auxiliary facts\<close>

subsection \<open>Trimming\<close>

lemma dropWhile_all_iff: "(\<forall>x \<in> set (dropWhile P xs). P x) \<longleftrightarrow> (\<forall>x \<in> set xs. P x)"
  by (induction xs) auto

lemma trim_empty_iff: "trim s = [] \<longleftrightarrow> (\<forall>c \<in> set s. WhiteSpace c)"
  by (simp add: trim_def dropWhile_eq_Nil_conv dropWhile_all_iff)




lemma trim_core:
  assumes "\<forall>c \<in> set l. WhiteSpace c" "\<forall>c \<in> set r. WhiteSpace c" "\<not> WhiteSpace a" "\<not> WhiteSpace z"
  shows "trim (l @ a # m @ z # r) = a # m @ [z]"
proof -
  have 1: "dropWhile WhiteSpace (l @ a # m @ z # r) = a # m @ z # r"
    using assms(1,3) by (simp add: dropWhile_append3)
  have 2: "rev (a # m @ z # r) = rev r @ z # rev m @ [a]" by simp
  have 3: "dropWhile WhiteSpace (rev r @ z # rev m @ [a]) = z # rev m @ [a]"
    using assms(2,4) by (simp add: dropWhile_append3)
  show ?thesis unfolding trim_def 1 2 3 by simp
qed


subsection \<open>The two fusion functions, by validity of the sum\<close>

lemma weightedFusion_valid:
  assumes "within_tolerance w"
  shows "weightedFusion str b r p (Some w) =
           Inr (trim (concat (numeric_blocks str w \<lparr>base = b, brain = r, persona = p\<rparr>)))"
  using assms
  by (simp add: weightedFusion_def within_tolerance_def weight_sum_def weight_of_def Let_def
      numeric_blocks_def emitted_layers_def text_of_def block_def numeric_marker_def)

lemma weightedFusion_invalid:
  assumes "\<not> within_tolerance w"
  shows "weightedFusion str b r p (Some w) =
           Inl (InvalidWeightDistribution
             (''Weights must sum to 1.0, got '' @ str (weight_sum w) @ ''. Please adjust weights.''))"
  using assms
  by (simp add: weightedFusion_def within_tolerance_def weight_sum_def weight_of_def Let_def)

lemma semanticWeightedFusion_valid:
  assumes "within_tolerance w"
  shows "\<exists>rules. generateConflictResolutionRules str (Some w) = Inr rules \<and>
           semanticWeightedFusion str b r p (Some w) =
             Inr (trim (concat (semantic_blocks w \<lparr>base = b, brain = r, persona = p\<rparr>) @ rules))"
  using assms
  by (simp add: semanticWeightedFusion_def within_tolerance_def weight_sum_def weight_of_def Let_def
      semantic_blocks_def emitted_layers_def text_of_def block_def semantic_marker_def
      generateConflictResolutionRules_def)

lemma semanticWeightedFusion_invalid:
  assumes "\<not> within_tolerance w"
  shows "semanticWeightedFusion str b r p (Some w) =
           Inl (InvalidWeightDistribution (''Weights must sum to 1.0, got '' @ str (weight_sum w)))"
  using assms
  by (simp add: semanticWeightedFusion_def within_tolerance_def weight_sum_def weight_of_def Let_def)

subsection \<open>The stable sort and the priority order\<close>












subsection \<open>The text of the directive\<close>

lemma forEach_layer_eq:
  "forEach_layer str ls i rules =
     rules @ concat (map (\<lambda>(k, l). rule_line str (k + 1) l) (enumerate i ls))"
  by (induction ls arbitrary: i rules) (simp_all add: rule_line_def add.commute [of _ "1::real"])

lemma generateConflictResolutionRules_eq:
  "generateConflictResolutionRules str (Some w) =
     Inr (''\<newline>'' @ directive str (sorted_layers w) @ ''\<newline>'')"
  by (simp add: generateConflictResolutionRules_def forEach_layer_eq directive_def numbered_list_def)

lemma not_WhiteSpace_bracket: "\<not> WhiteSpace CHR ''[''"
  by (simp add: WhiteSpace_def)

lemma not_WhiteSpace_dot: "\<not> WhiteSpace CHR ''.''"
  by (simp add: WhiteSpace_def)

lemma WhiteSpace_newline: "WhiteSpace CHR ''\<newline>''"
  by (simp add: WhiteSpace_def)

lemma directive_shape: "\<exists>m. directive str ls = CHR ''['' # m @ [CHR ''.'']"
proof -
  have "directive str ls =
      CHR ''['' # (''CONFLICT RESOLUTION RULES]\<newline>''
       @ ''When instructions conflict, apply this priority order:\<newline>''
       @ numbered_list str ls
       @ ''\<newline>Always prioritize higher-weighted layers when resolving conflicts'') @ [CHR ''.'']"
    by (simp add: directive_def)
  then show ?thesis by blast
qed

lemma trim_directive:
  assumes "pre = [] \<or> \<not> WhiteSpace (hd pre)"
  shows "trim (pre @ ''\<newline>'' @ directive str ls @ ''\<newline>'') =
           (if pre = [] then [] else pre @ ''\<newline>'') @ directive str ls"
proof -
  obtain m where m: "directive str ls = CHR ''['' # m @ [CHR ''.'']"
    using directive_shape by blast
  show ?thesis
  proof (cases pre)
    case Nil
    have "trim ([CHR ''\<newline>''] @ CHR ''['' # m @ CHR ''.'' # [CHR ''\<newline>'']) = CHR ''['' # m @ [CHR ''.'']"
      by (rule trim_core) (simp_all add: not_WhiteSpace_bracket not_WhiteSpace_dot WhiteSpace_newline)
    then show ?thesis using Nil m by simp
  next
    case (Cons a pre')
    then have a: "\<not> WhiteSpace a" using assms by simp
    have "trim ([] @ a # (pre' @ CHR ''\<newline>'' # CHR ''['' # m) @ CHR ''.'' # [CHR ''\<newline>''])
            = a # (pre' @ CHR ''\<newline>'' # CHR ''['' # m) @ [CHR ''.'']"
      by (rule trim_core) (simp_all add: a not_WhiteSpace_dot WhiteSpace_newline)
    then show ?thesis using Cons m by simp
  qed
qed

lemma semantic_blocks_start:
  "concat (semantic_blocks w t) = [] \<or> \<not> WhiteSpace (hd (concat (semantic_blocks w t)))"
proof (cases "emitted_layers w t")
  case Nil
  then show ?thesis by (simp add: semantic_blocks_def)
next
  case (Cons l ls)
  have "hd (concat (semantic_blocks w t)) = CHR ''[''"
    unfolding semantic_blocks_def Cons
    by (cases l) (simp_all add: block_def semantic_marker_def)
  then show ?thesis by (simp add: not_WhiteSpace_bracket)
qed

lemma concat_semantic_blocks_empty:
  "concat (semantic_blocks w t) = [] \<longleftrightarrow> semantic_blocks w t = []"
  by (auto simp: semantic_blocks_def block_def)

lemma semanticWeightedFusion_result:
  assumes "within_tolerance w"
  shows "semanticWeightedFusion str b r p (Some w) =
           Inr (before_directive (semantic_blocks w \<lparr>base = b, brain = r, persona = p\<rparr>)
                @ directive str (sorted_layers w))"
proof -
  let ?t = "\<lparr>base = b, brain = r, persona = p\<rparr>"
  obtain rules where rules: "generateConflictResolutionRules str (Some w) = Inr rules"
    and res: "semanticWeightedFusion str b r p (Some w) = Inr (trim (concat (semantic_blocks w ?t) @ rules))"
    using semanticWeightedFusion_valid [OF assms] by blast
  have "rules = ''\<newline>'' @ directive str (sorted_layers w) @ ''\<newline>''"
    using rules by (simp add: generateConflictResolutionRules_eq)
  then have tr: "trim (concat (semantic_blocks w ?t) @ rules) =
      (if concat (semantic_blocks w ?t) = [] then [] else concat (semantic_blocks w ?t) @ ''\<newline>'')
        @ directive str (sorted_layers w)"
    using trim_directive [OF semantic_blocks_start] by simp
  have bd: "before_directive (semantic_blocks w ?t) =
      (if concat (semantic_blocks w ?t) = [] then [] else concat (semantic_blocks w ?t) @ ''\<newline>'')"
    unfolding before_directive_def concat_semantic_blocks_empty ..
  show ?thesis unfolding res tr bd ..
qed

subsection \<open>The loops of detectConflicts\<close>

lemma fold_push_general:
  assumes "\<And>x acc. f x acc = (if P x then acc @ [g x] else acc)"
  shows "fold f xs acc = acc @ map g (filter P xs)"
  by (induction xs arbitrary: acc) (simp_all add: assms)

lemma check_pair_eq:
  "check_pair prompts layers i j conflicts =
     conflicts @ pair_conflicts (layers ! i) (layers ! j)
       (get_prompt prompts (layers ! i)) (get_prompt prompts (layers ! j))"
proof -
  let ?t1 = "get_prompt prompts (layers ! i)" and ?t2 = "get_prompt prompts (layers ! j)"
  have loop: "fold (\<lambda>(pattern1, pattern2, type) conflicts.
                if (RegExp_test pattern1 ?t1 \<and> RegExp_test pattern2 ?t2) \<or>
                   (RegExp_test pattern2 ?t1 \<and> RegExp_test pattern1 ?t2)
                then conflicts @
                  [\<lparr>type = type, layer1 = layers ! i, layer2 = layers ! j,
                    description = ''Conflicting '' @ type @ '' instructions between ''
                      @ layers ! i @ '' and '' @ layers ! j\<rparr>]
                else conflicts) opposingPatterns conflicts
            = conflicts @ map (\<lambda>pat. conflict_record (snd (snd pat)) (layers ! i) (layers ! j))
                (filter (\<lambda>pat. opposes pat ?t1 ?t2) opposingPatterns)"
    by (rule fold_push_general
          [where P = "\<lambda>pat. opposes pat ?t1 ?t2"
             and g = "\<lambda>pat. conflict_record (snd (snd pat)) (layers ! i) (layers ! j)"])
       (simp add: opposes_def conflict_record_def split_beta)
  show ?thesis
    by (simp add: check_pair_def pair_conflicts_def Let_def loop)
qed

lemma upt_3: "[0 ..< 3] = [0, 1, 2]" "[1 ..< 3] = [1, 2]" "[2 ..< 3] = [2]" "[3 ..< 3] = []"
  by (simp_all add: upt_rec numeral_nat)

lemma detectConflicts_eq:
  "detectConflicts b r p =
     pair_conflicts ''base'' ''brain'' b r
     @ pair_conflicts ''base'' ''persona'' b p
     @ pair_conflicts ''brain'' ''persona'' r p"
  by (simp add: detectConflicts_def check_pair_eq get_prompt_def upt_3)

subsection \<open>Matching\<close>

lemma matches_at_iff:
  "matches_at a s \<longleftrightarrow> (\<exists>x v. s = x @ v \<and> map Canonicalize x = map Canonicalize a)"
proof (induction a s rule: matches_at.induct)
  case (1 s)
  show ?case by simp
next
  case (2 p ps)
  show ?case by simp
next
  case (3 p ps c cs)
  show ?case
  proof
    assume "matches_at (p # ps) (c # cs)"
    then have pc: "Canonicalize p = Canonicalize c" and "matches_at ps cs" by simp_all
    then obtain x v where "cs = x @ v" "map Canonicalize x = map Canonicalize ps"
      using 3 by blast
    then have "c # cs = (c # x) @ v \<and> map Canonicalize (c # x) = map Canonicalize (p # ps)"
      using pc by simp
    then show "\<exists>x v. c # cs = x @ v \<and> map Canonicalize x = map Canonicalize (p # ps)"
      by blast
  next
    assume "\<exists>x v. c # cs = x @ v \<and> map Canonicalize x = map Canonicalize (p # ps)"
    then obtain x v where xv: "c # cs = x @ v" "map Canonicalize x = map Canonicalize (p # ps)"
      by blast
    then obtain x' where x: "x = c # x'" by (cases x) auto
    then have "cs = x' @ v" "map Canonicalize x' = map Canonicalize ps" "Canonicalize p = Canonicalize c"
      using xv by simp_all
    then show "matches_at (p # ps) (c # cs)" using 3 by auto
  qed
qed

lemma RegExp_test_suffix:
  "RegExp_test alts s \<longleftrightarrow> (\<exists>a \<in> set alts. \<exists>u v. s = u @ v \<and> matches_at a v)"
proof (induction s)
  case Nil
  show ?case by (simp add: list_ex_iff)
next
  case (Cons c cs)
  show ?case
  proof
    assume "RegExp_test alts (c # cs)"
    then consider "\<exists>a \<in> set alts. matches_at a (c # cs)" | "RegExp_test alts cs"
      by (auto simp: list_ex_iff)
    then show "\<exists>a \<in> set alts. \<exists>u v. c # cs = u @ v \<and> matches_at a v"
    proof cases
      case 1
      then obtain a where "a \<in> set alts" "c # cs = [] @ (c # cs) \<and> matches_at a (c # cs)" by auto
      then show ?thesis by blast
    next
      case 2
      then obtain a u v where "a \<in> set alts" "cs = u @ v" "matches_at a v" using Cons by blast
      then have "a \<in> set alts" "c # cs = (c # u) @ v \<and> matches_at a v" by simp_all
      then show ?thesis by blast
    qed
  next
    assume "\<exists>a \<in> set alts. \<exists>u v. c # cs = u @ v \<and> matches_at a v"
    then obtain a u v where a: "a \<in> set alts" and uv: "c # cs = u @ v" and m: "matches_at a v"
      by blast
    show "RegExp_test alts (c # cs)"
    proof (cases u)
      case Nil
      then have "matches_at a (c # cs)" using uv m by simp
      then show ?thesis using a by (auto simp: list_ex_iff)
    next
      case (Cons d u')
      then have "cs = u' @ v" using uv by simp
      then have "RegExp_test alts cs" using a m Cons.IH by blast
      then show ?thesis by simp
    qed
  qed
qed

lemma RegExp_test_iff:
  "RegExp_test alts s \<longleftrightarrow>
     (\<exists>a \<in> set alts. \<exists>u x v. s = u @ x @ v \<and> map Canonicalize x = map Canonicalize a)"
  unfolding RegExp_test_suffix matches_at_iff by blast

subsection \<open>The records of a pair of layers\<close>

lemma set_pair_conflicts:
  "set (pair_conflicts l1 l2 t1 t2) =
     (if t1 = '''' \<or> t2 = '''' then {}
      else (\<lambda>pat. conflict_record (snd (snd pat)) l1 l2) ` {pat \<in> set opposingPatterns. opposes pat t1 t2})"
  by (simp add: pair_conflicts_def)

lemma length_pair_conflicts: "length (pair_conflicts l1 l2 t1 t2) \<le> 4"
proof -
  have "length (filter (\<lambda>pat. opposes pat t1 t2) opposingPatterns) \<le> length opposingPatterns"
    by (rule length_filter_le)
  also have "length opposingPatterns = 4" by (simp add: opposingPatterns_def)
  finally show ?thesis by (simp add: pair_conflicts_def)
qed

lemma keys_pair_conflicts:
  "map conflict_key (pair_conflicts l1 l2 t1 t2) =
     (if t1 = '''' \<or> t2 = '''' then []
      else map (\<lambda>ty. (ty, l1, l2))
        (filter (\<lambda>ty. \<exists>pat \<in> set opposingPatterns. snd (snd pat) = ty \<and> opposes pat t1 t2)
           [''verbosity'', ''tone'', ''speed'', ''approach'']))"
  by (simp add: pair_conflicts_def conflict_key_def conflict_record_def opposingPatterns_def comp_def)

lemma distinct_keys_pair_conflicts: "distinct (map conflict_key (pair_conflicts l1 l2 t1 t2))"
proof -
  have "distinct [''verbosity'', ''tone'', ''speed'', ''approach'']" by simp
  then have "distinct (filter P [''verbosity'', ''tone'', ''speed'', ''approach''])" for P
    by (rule distinct_filter)
  then have "distinct (map (\<lambda>ty. (ty, l1, l2)) (filter P [''verbosity'', ''tone'', ''speed'', ''approach'']))" for P
    by (simp add: distinct_map inj_on_def)
  then show ?thesis unfolding keys_pair_conflicts by simp
qed

lemma keys_pair_conflicts_layers:
  "k \<in> set (map conflict_key (pair_conflicts l1 l2 t1 t2)) \<Longrightarrow>
     fst k \<in> {''verbosity'', ''tone'', ''speed'', ''approach''} \<and> snd k = (l1, l2)"
  unfolding keys_pair_conflicts by (auto split: if_splits)

lemma opposingPatterns_type_inj:
  assumes "pat \<in> set opposingPatterns" "pat' \<in> set opposingPatterns"
    and "snd (snd pat) = snd (snd pat')"
  shows "pat = pat'"
proof -
  have "distinct (map (\<lambda>pat. snd (snd pat)) opposingPatterns)"
    by (simp add: opposingPatterns_def)
  then have "inj_on (\<lambda>pat. snd (snd pat)) (set opposingPatterns)"
    by (simp add: distinct_map)
  then show ?thesis using assms by (simp add: inj_on_def)
qed

lemma conflict_record_eq:
  "conflict_record ty l1 l2 = conflict_record ty' l1' l2' \<longleftrightarrow> ty = ty' \<and> l1 = l1' \<and> l2 = l2'"
  by (auto simp: conflict_record_def)

lemma conflict_record_in_pair:
  assumes "pat \<in> set opposingPatterns"
  shows "conflict_record (snd (snd pat)) k1 k2 \<in> set (pair_conflicts l1 l2 t1 t2) \<longleftrightarrow>
           k1 = l1 \<and> k2 = l2 \<and> t1 \<noteq> '''' \<and> t2 \<noteq> '''' \<and> opposes pat t1 t2"
proof
  assume "conflict_record (snd (snd pat)) k1 k2 \<in> set (pair_conflicts l1 l2 t1 t2)"
  then have ne: "t1 \<noteq> ''''" "t2 \<noteq> ''''"
    and "\<exists>pat' \<in> set opposingPatterns. opposes pat' t1 t2 \<and>
           conflict_record (snd (snd pat)) k1 k2 = conflict_record (snd (snd pat')) l1 l2"
    by (auto simp: set_pair_conflicts split: if_splits)
  then obtain pat' where p': "pat' \<in> set opposingPatterns" "opposes pat' t1 t2"
    and eq: "snd (snd pat) = snd (snd pat')" "k1 = l1" "k2 = l2"
    by (auto simp: conflict_record_eq)
  have "pat = pat'" using assms p'(1) eq(1) by (rule opposingPatterns_type_inj)
  then show "k1 = l1 \<and> k2 = l2 \<and> t1 \<noteq> '''' \<and> t2 \<noteq> '''' \<and> opposes pat t1 t2"
    using ne p' eq by simp
next
  assume "k1 = l1 \<and> k2 = l2 \<and> t1 \<noteq> '''' \<and> t2 \<noteq> '''' \<and> opposes pat t1 t2"
  then show "conflict_record (snd (snd pat)) k1 k2 \<in> set (pair_conflicts l1 l2 t1 t2)"
    using assms by (auto simp: set_pair_conflicts)
qed

lemma keys_disjoint:
  assumes "(l1, l2) \<noteq> (k1, k2)"
  shows "set (map conflict_key (pair_conflicts l1 l2 t1 t2))
           \<inter> set (map conflict_key (pair_conflicts k1 k2 u1 u2)) = {}"
proof (rule ccontr)
  assume "set (map conflict_key (pair_conflicts l1 l2 t1 t2))
           \<inter> set (map conflict_key (pair_conflicts k1 k2 u1 u2)) \<noteq> {}"
  then obtain k where k: "k \<in> set (map conflict_key (pair_conflicts l1 l2 t1 t2))"
      "k \<in> set (map conflict_key (pair_conflicts k1 k2 u1 u2))"
    by blast
  have "snd k = (l1, l2)" using keys_pair_conflicts_layers [OF k(1)] by blast
  moreover have "snd k = (k1, k2)" using keys_pair_conflicts_layers [OF k(2)] by blast
  ultimately show False using assms by simp
qed

lemma pair_conflicts_member:
  assumes "c \<in> set (pair_conflicts l1 l2 t1 t2)"
  shows "type c \<in> {''verbosity'', ''tone'', ''speed'', ''approach''} \<and> (layer1 c, layer2 c) = (l1, l2)"
proof -
  have "conflict_key c \<in> set (map conflict_key (pair_conflicts l1 l2 t1 t2))"
    using assms by (simp only: set_map) (rule imageI)
  from keys_pair_conflicts_layers [OF this] show ?thesis
    by (simp add: conflict_key_def)
qed

subsection \<open>Strategy dispatch\<close>

lemma fusePrompts_rejects_unknown:
  assumes "strategy \<notin> {''weighted'', ''semanticWeighted'', ''__proto__''}"
    and "strategy \<notin> set Object_prototype_functions"
  shows "fusePrompts str layers (Some strategy) weights =
           Inl (UnknownStrategy (''Unknown fusion strategy: '' @ strategy))"
  using assms by (simp add: fusePrompts_def fusionStrategies_def or_default_def)

subsection \<open>Defaults, emitted layers and the resolver\<close>

lemma with_defaults_simps:
  "or_default (base (with_defaults w)) d1 = or_default (base w) 0.5"
  "or_default (brain (with_defaults w)) d2 = or_default (brain w) 0.3"
  "or_default (persona (with_defaults w)) d3 = or_default (persona w) 0.2"
  by (simp_all add: with_defaults_def or_default_def)

lemma generateConflictResolutionRules_with_defaults:
  "generateConflictResolutionRules str (Some (with_defaults w)) =
     generateConflictResolutionRules str (Some w)"
  by (simp add: generateConflictResolutionRules_def sorted_layers_def with_defaults_simps)




lemma trim_empty_list_all: "trim s = [] \<longleftrightarrow> list_all WhiteSpace s"
  by (simp add: trim_empty_iff list_all_iff)

lemma hasActivePersona_iff:
  "(case personaId of
      None \<Rightarrow> False
    | Some pid \<Rightarrow>
        pid \<noteq> '''' \<and> pid \<noteq> ''default'' \<and>
        (case personaContent of
           None \<Rightarrow> False
         | Some content \<Rightarrow> content \<noteq> '''' \<and> length (trim content) > 0))
   \<longleftrightarrow> \<not> (inactive personaId \<or> blank personaContent)"
proof (cases personaId)
  case None
  then show ?thesis by (simp add: inactive_def)
next
  case pid: (Some pid)
  show ?thesis
  proof (cases personaContent)
    case None
    then show ?thesis using pid by (simp add: inactive_def blank_def)
  next
    case (Some content)
    have "content \<noteq> '''' \<and> length (trim content) > 0 \<longleftrightarrow> \<not> list_all WhiteSpace content"
      using trim_empty_list_all [of content] by auto
    then show ?thesis using pid Some by (simp add: inactive_def blank_def)
  qed
qed

subsection \<open>Rounding to the nearest double\<close>

lemma of_int_two_power_le: "(2::int) ^ n \<le> m \<Longrightarrow> (2::real) ^ n \<le> of_int m"
  using of_int_le_iff [of "2 ^ n" m, where ?'a = real] by simp

lemma of_int_less_two_power: "m < (2::int) ^ n \<Longrightarrow> of_int m + 1 \<le> (2::real) ^ n"
  using of_int_le_iff [of "m + 1" "2 ^ n", where ?'a = real] by simp

lemma binade_bounds:
  assumes "0 < x"
  shows "2 powi binade x \<le> x \<and> x < 2 powi (binade x + 1)"
proof (cases "x \<ge> 1")
  case True
  let ?n = "\<lfloor>x\<rfloor>"
  have n: "?n > 0" using True by linarith
  have k: "bitlen ?n \<ge> 1" using n by (simp add: bitlen_alt_def)
  from bitlen_bounds [OF n]
  have b: "(2::int) ^ nat (bitlen ?n - 1) \<le> ?n" "?n < 2 ^ nat (bitlen ?n)" by simp_all
  have r: "of_int ?n \<le> x" "x < of_int ?n + 1" by linarith+
  have p1: "(2::real) powi (bitlen ?n - 1) = 2 ^ nat (bitlen ?n - 1)"
    using k by (simp add: power_int_def)
  have p2: "(2::real) powi (bitlen ?n - 1 + 1) = 2 ^ nat (bitlen ?n)"
    using k by (simp add: power_int_def)
  have lo: "2 powi (bitlen ?n - 1) \<le> x"
    unfolding p1 using of_int_two_power_le [OF b(1)] r(1) by linarith
  have hi: "x < 2 powi (bitlen ?n - 1 + 1)"
    unfolding p2 using of_int_less_two_power [OF b(2)] r(2) by linarith
  show ?thesis using True lo hi by (simp add: binade_def)
next
  case False
  then have x1: "x < 1" by simp
  let ?m = "\<lceil>1 / x\<rceil>"
  have z: "1 / x > 1" using assms x1 by simp
  have m: "?m - 1 > 0" using z by linarith
  let ?k = "bitlen (?m - 1)"
  have k: "?k \<ge> 1" using m by (simp add: bitlen_alt_def)
  from bitlen_bounds [OF m]
  have b: "(2::int) ^ nat (?k - 1) \<le> ?m - 1" "?m - 1 < 2 ^ nat ?k" by simp_all
  have r: "of_int (?m - 1) < 1 / x" "1 / x \<le> of_int (?m - 1) + 1" by linarith+
  have u: "1 / x \<le> 2 ^ nat ?k"
    using of_int_less_two_power [OF b(2)] r(2) by linarith
  have l: "2 ^ nat (?k - 1) < 1 / x"
    using of_int_two_power_le [OF b(1)] r(1) by linarith
  have p1: "(2::real) powi (- ?k) = 1 / 2 ^ nat ?k"
    using k by (simp add: power_int_def field_simps)
  have p2: "(2::real) powi (- ?k + 1) = 1 / 2 ^ nat (?k - 1)"
    using k by (simp add: power_int_def field_simps)
  have lo: "2 powi (- ?k) \<le> x"
    unfolding p1 using u assms by (simp add: field_simps)
  have hi: "x < 2 powi (- ?k + 1)"
    unfolding p2 using l assms by (simp add: field_simps)
  show ?thesis using False lo hi by (simp add: binade_def)
qed

lemma round_half_even_nearest:
  "\<bar>of_int (round_half_even y) - y\<bar> \<le> 1 / 2 \<and>
   (\<bar>of_int (round_half_even y) - y\<bar> = 1 / 2 \<longrightarrow> even (round_half_even y))"
  by (auto simp: round_half_even_def Let_def)

subsection \<open>The engine with a rounding\<close>

lemma getSemanticEmphasis_rounded_id: "getSemanticEmphasis_rounded id x = getSemanticEmphasis x"
  by (simp add: getSemanticEmphasis_rounded_def getSemanticEmphasis_def)

lemma sorted_layers_rounded_id: "sorted_layers_rounded id w = sorted_layers w"
  by (simp add: sorted_layers_rounded_def sorted_layers_def Let_def)

lemma generateConflictResolutionRules_rounded_id:
  "generateConflictResolutionRules_rounded id str weights = generateConflictResolutionRules str weights"
  by (simp add: generateConflictResolutionRules_rounded_def generateConflictResolutionRules_def
      sorted_layers_rounded_id Let_def split: option.split)

lemma weightedFusion_rounded_id:
  "weightedFusion_rounded id str b r p weights = weightedFusion str b r p weights"
  by (simp add: weightedFusion_rounded_def weightedFusion_def Let_def split: option.split)

lemma semanticWeightedFusion_rounded_id:
  "semanticWeightedFusion_rounded id str b r p weights = semanticWeightedFusion str b r p weights"
  by (simp add: semanticWeightedFusion_rounded_def semanticWeightedFusion_def
      getSemanticEmphasis_rounded_id generateConflictResolutionRules_rounded_id Let_def
      split: option.split sum.split)

lemma weightedFusion_rounded_passes:
  assumes "passes_validation rnd w"
  shows "\<exists>s. weightedFusion_rounded rnd str b r p (Some w) = Inr s"
  using assms
  by (simp add: weightedFusion_rounded_def passes_validation_def computed_sum_def Let_def)

lemma weightedFusion_rounded_fails:
  assumes "\<not> passes_validation rnd w"
  shows "weightedFusion_rounded rnd str b r p (Some w) =
           Inl (InvalidWeightDistribution
             (''Weights must sum to 1.0, got '' @ str (computed_sum rnd w) @ ''. Please adjust weights.''))"
  using assms
  by (simp add: weightedFusion_rounded_def passes_validation_def computed_sum_def Let_def)

lemma semanticWeightedFusion_rounded_passes:
  assumes "passes_validation rnd w"
  shows "\<exists>s. semanticWeightedFusion_rounded rnd str b r p (Some w) = Inr s"
  using assms
  by (simp add: semanticWeightedFusion_rounded_def passes_validation_def computed_sum_def Let_def
      generateConflictResolutionRules_rounded_def)

lemma semanticWeightedFusion_rounded_fails:
  assumes "\<not> passes_validation rnd w"
  shows "semanticWeightedFusion_rounded rnd str b r p (Some w) =
           Inl (InvalidWeightDistribution
             (''Weights must sum to 1.0, got '' @ str (computed_sum rnd w)))"
  using assms
  by (simp add: semanticWeightedFusion_rounded_def passes_validation_def computed_sum_def Let_def)

section \<open>The claims\<close>

subsection \<open>C1: keys that a distribution leaves out\<close>

text \<open>
  C1 as stated does not hold. For the distribution \<^verbatim>\<open>{base: 1.0}\<close> the keys
  \<^verbatim>\<open>brain\<close> and \<^verbatim>\<open>persona\<close> are not read as 0: the computed sum is 1.5, both
  fusion functions raise InvalidWeightDistribution, and the result differs from the one
  for \<^verbatim>\<open>{base: 1.0, brain: 0, persona: 0}\<close>, which passes validation.
\<close>

theorem partial_distribution_counterexample:
  "weightedFusion example_str ''Tool rules'' '''' '''' (Some \<lparr>base = Some 1, brain = None, persona = None\<rparr>)
     = Inl (InvalidWeightDistribution ''Weights must sum to 1.0, got 1.5. Please adjust weights.'') \<and>
   semanticWeightedFusion example_str ''Tool rules'' '''' '''' (Some \<lparr>base = Some 1, brain = None, persona = None\<rparr>)
     = Inl (InvalidWeightDistribution ''Weights must sum to 1.0, got 1.5'') \<and>
   weightedFusion example_str ''Tool rules'' '''' '''' (Some \<lparr>base = Some 1, brain = Some 0, persona = Some 0\<rparr>)
     = Inr ''[BASE_WEIGHT:1]\<newline>Tool rules''"
  by (simp add: weightedFusion_def semanticWeightedFusion_def or_default_def example_str_def
      trim_def WhiteSpace_def)

text \<open>
  C1, amended. For every distribution that is supplied, \<^const>\<open>weightedFusion\<close> and
  \<^const>\<open>semanticWeightedFusion\<close> give each key that is left out its own default
  (base 0.5, brain 0.3, persona 0.2) before they compute the validation sum: the result
  is the one for the distribution with the defaults written out, and the sum is the sum
  of the three values after defaulting. When \<^const>\<open>fusePrompts\<close> is called without a
  distribution, the distribution is the empty one and all three defaults apply.
\<close>

theorem missing_keys_take_defaults:
  "weightedFusion str b r p (Some w) = weightedFusion str b r p (Some (with_defaults w)) \<and>
   semanticWeightedFusion str b r p (Some w) = semanticWeightedFusion str b r p (Some (with_defaults w)) \<and>
   weight_sum w = or_default (base w) 0.5 + or_default (brain w) 0.3 + or_default (persona w) 0.2 \<and>
   fusePrompts str layers strategy None =
     fusePrompts str layers strategy (Some \<lparr>base = Some 0.5, brain = Some 0.3, persona = Some 0.2\<rparr>)"
proof -
  have 1: "weightedFusion str b r p (Some w) = weightedFusion str b r p (Some (with_defaults w))"
    for b r p w
    by (simp add: weightedFusion_def with_defaults_simps)
  have 2: "semanticWeightedFusion str b r p (Some w) =
             semanticWeightedFusion str b r p (Some (with_defaults w))"
    for b r p w
    by (simp add: semanticWeightedFusion_def with_defaults_simps Let_def
        generateConflictResolutionRules_with_defaults)
  have 3: "weight_sum w = or_default (base w) 0.5 + or_default (brain w) 0.3 + or_default (persona w) 0.2"
    by (simp add: weight_sum_def weight_of_def)
  have d: "with_defaults \<lparr>base = None, brain = None, persona = None\<rparr> =
             \<lparr>base = Some 0.5, brain = Some 0.3, persona = Some 0.2\<rparr>"
    by (simp add: with_defaults_def or_default_def)
  have 4: "fusePrompts str layers strategy None =
     fusePrompts str layers strategy (Some \<lparr>base = Some 0.5, brain = Some 0.3, persona = Some 0.2\<rparr>)"
    unfolding fusePrompts_def
    using 1 [of "base layers" "brain layers" "persona layers" "\<lparr>base = None, brain = None, persona = None\<rparr>"]
      2 [of "base layers" "brain layers" "persona layers" "\<lparr>base = None, brain = None, persona = None\<rparr>"]
    by (simp add: or_default_def d Let_def split: property_value.split)
  show ?thesis using 1 2 3 4 by blast
qed

theorem missing_keys_take_defaults_witness:
  "weight_sum \<lparr>base = Some 1, brain = None, persona = None\<rparr> = 1.5 \<and>
   weightedFusion example_str ''Tool rules'' '''' ''''
       (Some \<lparr>base = Some 1, brain = None, persona = None\<rparr>) =
     weightedFusion example_str ''Tool rules'' '''' ''''
       (Some \<lparr>base = Some 1, brain = Some 0.3, persona = Some 0.2\<rparr>)"
  using missing_keys_take_defaults
    [of example_str "''Tool rules''" "''''" "''''" "\<lparr>base = Some 1, brain = None, persona = None\<rparr>"]
  by (simp add: with_defaults_def or_default_def)

subsection \<open>C2: strategy names that the strategy object inherits\<close>

text \<open>
  C2. The claim asks that every strategy name other than \<^verbatim>\<open>weighted\<close> and
  \<^verbatim>\<open>semanticWeighted\<close> ends in UnknownStrategy. The code does not do this for the
  names that \<^verbatim>\<open>this.fusionStrategies\<close> inherits from \<^verbatim>\<open>Object.prototype\<close>:
  for \<^verbatim>\<open>toString\<close> the property read finds a function, the guard does not fire and
  the call returns the string \<^verbatim>\<open>[object Undefined]\<close>; for \<^verbatim>\<open>constructor\<close> the
  call returns the base text wrapped in an object.
\<close>

theorem fusePrompts_inherited_key:
  "fusePrompts str layers (Some ''toString'') weights = Inr (String ''[object Undefined]'') \<and>
   fusePrompts str layers (Some ''constructor'') weights = Inr (StringObject (base layers))"
  by (simp add: fusePrompts_def fusionStrategies_def Object_prototype_functions_def
      call_Object_prototype_function_def or_default_def)

subsection \<open>C3: validation of the sum\<close>

text \<open>
  C3 as stated does not hold. In the distribution with base 0.5675633241585634, brain
  0.2515262464862458 and persona 0.1799104293551909 the three values sum to within 0.001
  of 1, whether they are read as the decimals that are written or as the doubles that
  these literals denote. The code adds them as doubles from the left and gets the double
  nearest to 0.999, whose difference from 1 rounds to a double above the one nearest to
  0.001: both fusion functions raise InvalidWeightDistribution, and the message of
  \<^verbatim>\<open>weightedFusion\<close> reads \<^verbatim>\<open>got 0.999\<close>.
\<close>

theorem validation_exact_sum_counterexample:
  "\<bar>(0.5675633241585634 + 0.2515262464862458 + 0.1799104293551909) - 1\<bar> \<le> (0.001 :: real) \<and>
   \<bar>(round_to_double 0.5675633241585634 + round_to_double 0.2515262464862458
       + round_to_double 0.1799104293551909) - 1\<bar> \<le> 0.001 \<and>
   computed_sum round_to_double
       \<lparr>base = Some (round_to_double 0.5675633241585634),
        brain = Some (round_to_double 0.2515262464862458),
        persona = Some (round_to_double 0.1799104293551909)\<rparr>
     = round_to_double 0.999 \<and>
   weightedFusion_rounded round_to_double example_str_double ''B'' ''C'' ''P''
       (Some \<lparr>base = Some (round_to_double 0.5675633241585634),
              brain = Some (round_to_double 0.2515262464862458),
              persona = Some (round_to_double 0.1799104293551909)\<rparr>)
     = Inl (InvalidWeightDistribution ''Weights must sum to 1.0, got 0.999. Please adjust weights.'') \<and>
   semanticWeightedFusion_rounded round_to_double example_str_double ''B'' ''C'' ''P''
       (Some \<lparr>base = Some (round_to_double 0.5675633241585634),
              brain = Some (round_to_double 0.2515262464862458),
              persona = Some (round_to_double 0.1799104293551909)\<rparr>)
     = Inl (InvalidWeightDistribution ''Weights must sum to 1.0, got 0.999'')"
  by code_simp

text \<open>
  C3, amended. Let the sum of a distribution be the one the code computes: the three
  weights after defaulting, added as doubles from the left. When the absolute difference
  of that sum from 1, taken in double arithmetic, is at most the double nearest to 0.001,
  \<^verbatim>\<open>weightedFusion\<close> and \<^verbatim>\<open>semanticWeightedFusion\<close> return a string; otherwise
  both raise InvalidWeightDistribution, and the message holds the rendering of the
  computed sum.
\<close>

theorem validation_by_computed_sum:
  "(passes_validation round_to_double w \<longrightarrow>
      (\<exists>s. weightedFusion_rounded round_to_double str b r p (Some w) = Inr s) \<and>
      (\<exists>s. semanticWeightedFusion_rounded round_to_double str b r p (Some w) = Inr s)) \<and>
   (\<not> passes_validation round_to_double w \<longrightarrow>
      weightedFusion_rounded round_to_double str b r p (Some w) =
        Inl (InvalidWeightDistribution
          (''Weights must sum to 1.0, got '' @ str (computed_sum round_to_double w)
             @ ''. Please adjust weights.'')) \<and>
      semanticWeightedFusion_rounded round_to_double str b r p (Some w) =
        Inl (InvalidWeightDistribution
          (''Weights must sum to 1.0, got '' @ str (computed_sum round_to_double w))))"
  using weightedFusion_rounded_passes [of round_to_double w str b r p]
    semanticWeightedFusion_rounded_passes [of round_to_double w str b r p]
    weightedFusion_rounded_fails [of round_to_double w str b r p]
    semanticWeightedFusion_rounded_fails [of round_to_double w str b r p]
  by blast

theorem validation_by_computed_sum_witness:
  "passes_validation round_to_double
     \<lparr>base = Some (round_to_double 0.2), brain = Some (round_to_double 0.3),
      persona = Some (round_to_double 0.5)\<rparr> \<and>
   (\<exists>s. weightedFusion_rounded round_to_double example_str_double ''B'' ''C'' ''P''
          (Some \<lparr>base = Some (round_to_double 0.2), brain = Some (round_to_double 0.3),
                 persona = Some (round_to_double 0.5)\<rparr>) = Inr s) \<and>
   (\<exists>s. semanticWeightedFusion_rounded round_to_double example_str_double ''B'' ''C'' ''P''
          (Some \<lparr>base = Some (round_to_double 0.2), brain = Some (round_to_double 0.3),
                 persona = Some (round_to_double 0.5)\<rparr>) = Inr s) \<and>
   \<not> passes_validation round_to_double \<lparr>base = Some 0.5, brain = Some 0.5, persona = Some 0.5\<rparr> \<and>
   weightedFusion_rounded round_to_double example_str_double ''B'' ''C'' ''P''
       (Some \<lparr>base = Some 0.5, brain = Some 0.5, persona = Some 0.5\<rparr>) =
     Inl (InvalidWeightDistribution ''Weights must sum to 1.0, got 1.5. Please adjust weights.'') \<and>
   semanticWeightedFusion_rounded round_to_double example_str_double ''B'' ''C'' ''P''
       (Some \<lparr>base = Some 0.5, brain = Some 0.5, persona = Some 0.5\<rparr>) =
     Inl (InvalidWeightDistribution ''Weights must sum to 1.0, got 1.5'')"
proof -
  let ?v = "\<lparr>base = Some (round_to_double 0.2), brain = Some (round_to_double 0.3),
      persona = Some (round_to_double 0.5)\<rparr> :: weights"
  let ?n = "\<lparr>base = Some 0.5, brain = Some 0.5, persona = Some 0.5\<rparr> :: weights"
  have v: "passes_validation round_to_double ?v"
    by code_simp
  have n: "\<not> passes_validation round_to_double ?n"
    by code_simp
  have s: "example_str_double (computed_sum round_to_double ?n) = ''1.5''"
    by code_simp
  show ?thesis
    using v n
      validation_by_computed_sum [of ?v example_str_double "''B''" "''C''" "''P''"]
      validation_by_computed_sum [of ?n example_str_double "''B''" "''C''" "''P''"]
    unfolding s by simp
qed

subsection \<open>C4: the conflict-resolution directive\<close>



subsection \<open>C5: the semantic emphasis of a weight\<close>

text \<open>
  C5. \<^const>\<open>getSemanticEmphasis\<close> is defined on every weight, and its four labels
  belong to closed-open intervals: a weight of at least 0.6 is CRITICAL PRIORITY - MUST
  FOLLOW, a weight in [0.4, 0.6) is HIGH IMPORTANCE, a weight in [0.2, 0.4) is MODERATE
  GUIDANCE and a weight below 0.2 is OPTIONAL CONSIDERATION, so that each of the
  boundaries 0.6, 0.4 and 0.2 takes the higher label.
\<close>

theorem getSemanticEmphasis_intervals:
  "(0.6 \<le> w \<longrightarrow> getSemanticEmphasis w = ''CRITICAL PRIORITY - MUST FOLLOW'') \<and>
   (0.4 \<le> w \<and> w < 0.6 \<longrightarrow> getSemanticEmphasis w = ''HIGH IMPORTANCE'') \<and>
   (0.2 \<le> w \<and> w < 0.4 \<longrightarrow> getSemanticEmphasis w = ''MODERATE GUIDANCE'') \<and>
   (w < 0.2 \<longrightarrow> getSemanticEmphasis w = ''OPTIONAL CONSIDERATION'')"
  by (simp add: getSemanticEmphasis_def)

theorem getSemanticEmphasis_intervals_witness:
  "getSemanticEmphasis 0.6 = ''CRITICAL PRIORITY - MUST FOLLOW'' \<and>
   getSemanticEmphasis 0.59999 = ''HIGH IMPORTANCE'' \<and>
   getSemanticEmphasis 0.4 = ''HIGH IMPORTANCE'' \<and>
   getSemanticEmphasis 0.39999 = ''MODERATE GUIDANCE'' \<and>
   getSemanticEmphasis 0.2 = ''MODERATE GUIDANCE'' \<and>
   getSemanticEmphasis 0.19999 = ''OPTIONAL CONSIDERATION'' \<and>
   getSemanticEmphasis 0 = ''OPTIONAL CONSIDERATION''"
  using getSemanticEmphasis_intervals [of "0.6"] getSemanticEmphasis_intervals [of "0.59999"]
    getSemanticEmphasis_intervals [of "0.4"] getSemanticEmphasis_intervals [of "0.39999"]
    getSemanticEmphasis_intervals [of "0.2"] getSemanticEmphasis_intervals [of "0.19999"]
    getSemanticEmphasis_intervals [of 0]
  by simp

subsection \<open>C6: which layers get a block\<close>



subsection \<open>C7: what detectConflicts reports\<close>

text \<open>
  C7. \<^const>\<open>detectConflicts\<close> is a total function of the three texts. For each of the
  four pattern pairs (verbosity, tone, speed, approach) and each of the three pairs of
  layers, the record with that type and those layer names is in the result if and only if
  both texts are non-empty and one text matches the first pattern while the other matches
  the second, in either assignment; when no pair of texts opposes each other under any
  pattern pair, the result is empty. A pattern matches a text when one of its words
  occurs in the text, letters compared without regard to case.
\<close>

theorem detectConflicts_reports:
  assumes "pat \<in> set opposingPatterns"
  shows "(conflict_record (snd (snd pat)) ''base'' ''brain'' \<in> set (detectConflicts b r p)
            \<longleftrightarrow> b \<noteq> '''' \<and> r \<noteq> '''' \<and> opposes pat b r) \<and>
         (conflict_record (snd (snd pat)) ''base'' ''persona'' \<in> set (detectConflicts b r p)
            \<longleftrightarrow> b \<noteq> '''' \<and> p \<noteq> '''' \<and> opposes pat b p) \<and>
         (conflict_record (snd (snd pat)) ''brain'' ''persona'' \<in> set (detectConflicts b r p)
            \<longleftrightarrow> r \<noteq> '''' \<and> p \<noteq> '''' \<and> opposes pat r p) \<and>
         ((\<forall>pat' \<in> set opposingPatterns.
              \<not> opposes pat' b r \<and> \<not> opposes pat' b p \<and> \<not> opposes pat' r p)
            \<longrightarrow> detectConflicts b r p = []) \<and>
         map (\<lambda>pat. snd (snd pat)) opposingPatterns = [''verbosity'', ''tone'', ''speed'', ''approach''] \<and>
         (\<forall>alternatives s. RegExp_test alternatives s \<longleftrightarrow>
            (\<exists>a \<in> set alternatives. \<exists>u x v.
               s = u @ x @ v \<and> map Canonicalize x = map Canonicalize a))"
proof -
  have e: "detectConflicts b r p = []"
    if "\<forall>pat' \<in> set opposingPatterns. \<not> opposes pat' b r \<and> \<not> opposes pat' b p \<and> \<not> opposes pat' r p"
  proof -
    have "filter (\<lambda>pat. opposes pat t1 t2) opposingPatterns = []"
      if "\<forall>pat' \<in> set opposingPatterns. \<not> opposes pat' t1 t2" for t1 t2
      using that by (simp add: filter_empty_conv)
    then show ?thesis using that by (simp add: detectConflicts_eq pair_conflicts_def)
  qed
  have m: "(conflict_record (snd (snd pat)) ''base'' ''brain'' \<in> set (detectConflicts b r p)
            \<longleftrightarrow> b \<noteq> '''' \<and> r \<noteq> '''' \<and> opposes pat b r) \<and>
         (conflict_record (snd (snd pat)) ''base'' ''persona'' \<in> set (detectConflicts b r p)
            \<longleftrightarrow> b \<noteq> '''' \<and> p \<noteq> '''' \<and> opposes pat b p) \<and>
         (conflict_record (snd (snd pat)) ''brain'' ''persona'' \<in> set (detectConflicts b r p)
            \<longleftrightarrow> r \<noteq> '''' \<and> p \<noteq> '''' \<and> opposes pat r p)"
    by (simp add: detectConflicts_eq conflict_record_in_pair [OF assms])
  have t: "map (\<lambda>pat. snd (snd pat)) opposingPatterns = [''verbosity'', ''tone'', ''speed'', ''approach'']"
    by (simp add: opposingPatterns_def)
  have x: "\<forall>alternatives s. RegExp_test alternatives s \<longleftrightarrow>
            (\<exists>a \<in> set alternatives. \<exists>u x v.
               s = u @ x @ v \<and> map Canonicalize x = map Canonicalize a)"
    using RegExp_test_iff by blast
  show ?thesis using e m t x by blast
qed

theorem detectConflicts_reports_witness:
  "([''verbose'', ''detailed'', ''comprehensive''], [''concise'', ''brief'', ''short''], ''verbosity'')
      \<in> set opposingPatterns \<and>
   opposes ([''verbose'', ''detailed'', ''comprehensive''], [''concise'', ''brief'', ''short''], ''verbosity'')
      ''Be verbose'' ''Be CONCISE'' \<and>
   conflict_record ''verbosity'' ''base'' ''persona''
      \<in> set (detectConflicts ''Be verbose'' ''Be brief'' ''Be CONCISE'') \<and>
   conflict_record ''verbosity'' ''brain'' ''persona''
      \<notin> set (detectConflicts ''Be verbose'' ''Be brief'' ''Be CONCISE'')"
proof -
  let ?pat = "([''verbose'', ''detailed'', ''comprehensive''], [''concise'', ''brief'', ''short''], ''verbosity'')"
  have h: "?pat \<in> set opposingPatterns"
    by (simp add: opposingPatterns_def)
  have o: "opposes ?pat ''Be verbose'' ''Be CONCISE''"
    by code_simp
  have n: "\<not> opposes ?pat ''Be brief'' ''Be CONCISE''"
    by code_simp
  note inst = detectConflicts_reports [OF h, of "''Be verbose''" "''Be brief''" "''Be CONCISE''"]
  have 1: "conflict_record ''verbosity'' ''base'' ''persona''
      \<in> set (detectConflicts ''Be verbose'' ''Be brief'' ''Be CONCISE'')"
    using o inst [THEN conjunct2, THEN conjunct1] by simp
  have 2: "conflict_record ''verbosity'' ''brain'' ''persona''
      \<notin> set (detectConflicts ''Be verbose'' ''Be brief'' ''Be CONCISE'')"
    using n inst [THEN conjunct2, THEN conjunct2, THEN conjunct1] by simp
  show ?thesis using h o 1 2 by blast
qed

subsection \<open>C8: the weight resolver\<close>

text \<open>
  C8. \<^const>\<open>determineWeights\<close> returns base 0.4, brain 0.6, persona 0 when the persona
  overlay is inactive or its content is blank, and base 0.2, brain 0.3, persona 0.5
  otherwise. In both cases the weights sum to exactly 1, so both fusion functions accept
  the distribution and return a string.
\<close>

theorem determineWeights_policy:
  "determineWeights personaId personaContent =
     (if inactive personaId \<or> blank personaContent
      then \<lparr>base = Some 0.4, brain = Some 0.6, persona = Some 0\<rparr>
      else \<lparr>base = Some 0.2, brain = Some 0.3, persona = Some 0.5\<rparr>) \<and>
   weight_sum (determineWeights personaId personaContent) = 1 \<and>
   (\<exists>s. weightedFusion str b r p (Some (determineWeights personaId personaContent)) = Inr s) \<and>
   (\<exists>s. semanticWeightedFusion str b r p (Some (determineWeights personaId personaContent)) = Inr s)"
proof -
  have 1: "determineWeights personaId personaContent =
     (if inactive personaId \<or> blank personaContent
      then \<lparr>base = Some 0.4, brain = Some 0.6, persona = Some 0\<rparr>
      else \<lparr>base = Some 0.2, brain = Some 0.3, persona = Some 0.5\<rparr>)"
    unfolding determineWeights_def Let_def hasActivePersona_iff by simp
  have 2: "weight_sum (determineWeights personaId personaContent) = 1"
    unfolding 1 by (simp add: weight_sum_def weight_of_def or_default_def)
  then have "within_tolerance (determineWeights personaId personaContent)"
    by (simp add: within_tolerance_def)
  then have "(\<exists>s. weightedFusion str b r p (Some (determineWeights personaId personaContent)) = Inr s) \<and>
   (\<exists>s. semanticWeightedFusion str b r p (Some (determineWeights personaId personaContent)) = Inr s)"
    using weightedFusion_valid semanticWeightedFusion_result by blast
  then show ?thesis using 1 2 by blast
qed

theorem determineWeights_policy_witness:
  "determineWeights (Some ''analyst'') (Some '' \<newline>'') =
     \<lparr>base = Some 0.4, brain = Some 0.6, persona = Some 0\<rparr> \<and>
   determineWeights (Some ''default'') (Some ''Be brief'') =
     \<lparr>base = Some 0.4, brain = Some 0.6, persona = Some 0\<rparr> \<and>
   determineWeights (Some ''analyst'') (Some ''Be brief'') =
     \<lparr>base = Some 0.2, brain = Some 0.3, persona = Some 0.5\<rparr> \<and>
   weight_sum (determineWeights (Some ''analyst'') (Some ''Be brief'')) = 1"
  using determineWeights_policy [of "Some ''analyst''" "Some '' \<newline>''" example_str "''B''" "''C''" "''P''"]
    determineWeights_policy [of "Some ''default''" "Some ''Be brief''" example_str "''B''" "''C''" "''P''"]
    determineWeights_policy [of "Some ''analyst''" "Some ''Be brief''" example_str "''B''" "''C''" "''P''"]
  by (simp add: inactive_def blank_def WhiteSpace_def weight_sum_def weight_of_def or_default_def)

subsection \<open>C9: the directive ignores the texts\<close>



subsection \<open>C10: the shape of the records\<close>

text \<open>
  C10. In every result of \<^const>\<open>detectConflicts\<close> no two records agree in type and in
  both layer names, so there are at most 12 records; the type of each record is one of
  verbosity, tone, speed, approach; and the first layer of each record comes before the
  second in the order base, brain, persona, so the two are never equal.
\<close>

theorem detectConflicts_records:
  "distinct (map conflict_key (detectConflicts b r p)) \<and>
   length (detectConflicts b r p) \<le> 12 \<and>
   (\<forall>c \<in> set (detectConflicts b r p).
      type c \<in> {''verbosity'', ''tone'', ''speed'', ''approach''} \<and>
      (layer1 c, layer2 c) \<in> {(''base'', ''brain''), (''base'', ''persona''), (''brain'', ''persona'')})"
proof -
  let ?A = "pair_conflicts ''base'' ''brain'' b r"
  let ?B = "pair_conflicts ''base'' ''persona'' b p"
  let ?C = "pair_conflicts ''brain'' ''persona'' r p"
  have AB: "set (map conflict_key ?A) \<inter> set (map conflict_key ?B) = {}"
    by (rule keys_disjoint) simp
  have AC: "set (map conflict_key ?A) \<inter> set (map conflict_key ?C) = {}"
    by (rule keys_disjoint) simp
  have BC: "set (map conflict_key ?B) \<inter> set (map conflict_key ?C) = {}"
    by (rule keys_disjoint) simp
  have "distinct (map conflict_key ?A @ map conflict_key ?B @ map conflict_key ?C)"
    unfolding distinct_append set_append Int_Un_distrib
    using AB AC BC distinct_keys_pair_conflicts by blast
  then have 1: "distinct (map conflict_key (detectConflicts b r p))"
    unfolding detectConflicts_eq map_append .
  have "length ?A + length ?B + length ?C \<le> 12"
    using length_pair_conflicts [of "''base''" "''brain''" b r]
      length_pair_conflicts [of "''base''" "''persona''" b p]
      length_pair_conflicts [of "''brain''" "''persona''" r p]
    by linarith
  then have 2: "length (detectConflicts b r p) \<le> 12"
    unfolding detectConflicts_eq length_append by simp
  have 3: "type c \<in> {''verbosity'', ''tone'', ''speed'', ''approach''} \<and>
      (layer1 c, layer2 c) \<in> {(''base'', ''brain''), (''base'', ''persona''), (''brain'', ''persona'')}"
    if "c \<in> set (detectConflicts b r p)" for c
  proof -
    from that have "c \<in> set ?A \<or> c \<in> set ?B \<or> c \<in> set ?C"
      unfolding detectConflicts_eq set_append by blast
    then show ?thesis
      using pair_conflicts_member [of c] by blast
  qed
  show ?thesis using 1 2 3 by blast
qed

theorem detectConflicts_records_witness:
  "conflict_record ''verbosity'' ''base'' ''persona'' \<in> set (detectConflicts ''verbose'' ''x'' ''CONCISE'') \<and>
   type (conflict_record ''verbosity'' ''base'' ''persona'')
     \<in> {''verbosity'', ''tone'', ''speed'', ''approach''} \<and>
   (layer1 (conflict_record ''verbosity'' ''base'' ''persona''),
    layer2 (conflict_record ''verbosity'' ''base'' ''persona''))
     \<in> {(''base'', ''brain''), (''base'', ''persona''), (''brain'', ''persona'')} \<and>
   distinct (map conflict_key (detectConflicts ''verbose'' ''x'' ''CONCISE'')) \<and>
   length (detectConflicts ''verbose'' ''x'' ''CONCISE'') \<le> 12"
proof -
  have e: "detectConflicts ''verbose'' ''x'' ''CONCISE'' = [conflict_record ''verbosity'' ''base'' ''persona'']"
    by code_simp
  then have m: "conflict_record ''verbosity'' ''base'' ''persona'' \<in> set (detectConflicts ''verbose'' ''x'' ''CONCISE'')"
    by simp
  show ?thesis
    using m detectConflicts_records [of "''verbose''" "''x''" "''CONCISE''"] by blast
qed

end
